theory Spec2Isabelle
  imports Main "HOL-Library.AList" "HOL-Library.Sublist"
begin

section \<open>Values shared by the two source files\<close>

text \<open>
  A rejected promise or a thrown \<^verbatim>\<open>Error\<close> is a value of \<open>exn\<close>; an asynchronous function
  that may fail returns \<open>exn + 'a\<close>, with \<open>Inl\<close> for the rejection.
\<close>

datatype exn = Error string

text \<open>
  JSON values, for the properties of a registry document that the program never reads and
  for the files the registry workflow writes. A JavaScript object is an association list
  in the enumeration order of its keys.
\<close>

datatype json =
    JNull
  | JBoolean bool
  | JNumber int
  | JString string
  | JArray "json list"
  | JObject "(string \<times> json) list"

section \<open>The npm client (\<^verbatim>\<open>src/unnamed/part_000\<close>)\<close>

subsection \<open>Data model\<close>

text \<open>
  \<^verbatim>\<open>NpmInfoVersion\<close>: the interface declares two properties; an object received from the
  registry may carry more, which \<open>otherVersionProperties\<close> holds. An absent
  \<^verbatim>\<open>deprecated\<close> and \<^verbatim>\<open>deprecated: undefined\<close> are both \<open>None\<close> (a JSON file does not
  tell them apart).
\<close>

record NpmInfoVersion =
  typesPublisherContentHash :: string
  deprecated :: "string option"
  otherVersionProperties :: "(string \<times> json) list"

record NpmInfoRawTime =
  modified :: string
  otherTimeProperties :: "(string \<times> json) list"

text \<open>\<^verbatim>\<open>NpmInfoRaw\<close>, the wire shape; \<open>dist_tags\<close> is the property \<^verbatim>\<open>"dist-tags"\<close>.\<close>

record NpmInfoRaw =
  version :: string
  dist_tags :: "(string \<times> string) list"
  versions :: "(string \<times> NpmInfoVersion) list"
  time :: NpmInfoRawTime
  otherProperties :: "(string \<times> json) list"

text \<open>
  \<^verbatim>\<open>NpmInfo\<close>, the processed shape that is cached. A JavaScript \<^verbatim>\<open>Map\<close> is an association
  list in insertion order.
\<close>

record NpmInfo =
  version :: string
  distTags :: "(string \<times> string) list"
  versions :: "(string \<times> NpmInfoVersion) list"
  timeModified :: string

subsection \<open>Helpers imported from \<^verbatim>\<open>../util/util\<close> and the built-in \<^verbatim>\<open>Map\<close>\<close>

text \<open>
  Modelled from the spec: \<^verbatim>\<open>identity\<close> of \<^verbatim>\<open>../util/util\<close> is not among the sources. The spec
  has the \<^verbatim>\<open>dist-tags\<close> values copied as they are.
\<close>

definition identity :: "'a \<Rightarrow> 'a" where
  "identity x = x"

text \<open>
  Modelled from the spec: \<^verbatim>\<open>recordToMap\<close> of \<^verbatim>\<open>../util/util\<close> is not among the sources. The
  spec has it convert an object into a mapping with identical keys, each value passed
  through the callback.
\<close>

definition recordToMap :: "(string \<times> 'a) list \<Rightarrow> ('a \<Rightarrow> 'b) \<Rightarrow> (string \<times> 'b) list" where
  "recordToMap record cb = map (\<lambda>(key, v). (key, cb v)) record"

text \<open>
  Modelled from the spec: \<^verbatim>\<open>mapToRecord\<close> of \<^verbatim>\<open>../util/util\<close> is not among the sources. It
  is the converse conversion; a call without a callback is a call with \<open>identity\<close>.
\<close>

definition mapToRecord :: "(string \<times> 'a) list \<Rightarrow> ('a \<Rightarrow> 'b) \<Rightarrow> (string \<times> 'b) list" where
  "mapToRecord m cb = map (\<lambda>(key, v). (key, cb v)) m"

text \<open>
  Modelled from the spec: \<^verbatim>\<open>some\<close> of \<^verbatim>\<open>../util/util\<close> is not among the sources. The spec
  reads the call as "at least one version has ...".
\<close>

definition some :: "'a list \<Rightarrow> ('a \<Rightarrow> bool) \<Rightarrow> bool" where
  "some iter cb = list_ex cb iter"

text \<open>\<^verbatim>\<open>Map.prototype.get\<close>, \<^verbatim>\<open>set\<close> and \<^verbatim>\<open>values\<close>.\<close>

definition Map_get :: "(string \<times> 'a) list \<Rightarrow> string \<Rightarrow> 'a option" where
  "Map_get m key = map_of m key"

definition Map_set :: "string \<Rightarrow> 'a \<Rightarrow> (string \<times> 'a) list \<Rightarrow> (string \<times> 'a) list" where
  "Map_set key v m = AList.update key v m"

definition Map_values :: "(string \<times> 'a) list \<Rightarrow> 'a list" where
  "Map_values m = map snd m"

subsection \<open>Normalisation and its converse\<close>

definition npmInfoFromJson :: "NpmInfoRaw \<Rightarrow> NpmInfo" where
  "npmInfoFromJson n =
     \<lparr> NpmInfo.version = NpmInfoRaw.version n,
       distTags = recordToMap (dist_tags n) identity,
       versions = recordToMap (NpmInfoRaw.versions n)
         (\<lambda>v. \<lparr> typesPublisherContentHash = typesPublisherContentHash v,
                deprecated = deprecated v,
                otherVersionProperties = [] \<rparr>),
       timeModified = modified (time n) \<rparr>"

definition jsonFromNpmInfo :: "NpmInfo \<Rightarrow> NpmInfoRaw" where
  "jsonFromNpmInfo n =
     \<lparr> NpmInfoRaw.version = NpmInfo.version n,
       dist_tags = mapToRecord (distTags n) identity,
       versions = mapToRecord (NpmInfo.versions n) identity,
       time = \<lparr> modified = timeModified n, otherTimeProperties = [] \<rparr>,
       otherProperties = [] \<rparr>"

text \<open>
  The spec's "restricted to the four tracked fields": the document with every property
  other than \<^verbatim>\<open>version\<close>, \<^verbatim>\<open>dist-tags\<close>, the two per-version properties and
  \<^verbatim>\<open>time.modified\<close> removed. This definition follows the spec's words, not the code.
\<close>

definition restrictedToTrackedFields :: "NpmInfoRaw \<Rightarrow> NpmInfoRaw" where
  "restrictedToTrackedFields r =
     r \<lparr> NpmInfoRaw.versions :=
           map (\<lambda>(key, v). (key, v \<lparr> otherVersionProperties := [] \<rparr>)) (NpmInfoRaw.versions r),
         time := (time r) \<lparr> otherTimeProperties := [] \<rparr>,
         otherProperties := [] \<rparr>"

subsection \<open>\<^verbatim>\<open>UncachedNpmInfoClient\<close>\<close>

text \<open>
  What \<^verbatim>\<open>Fetcher.fetchJson\<close> yields for a request to the registry host: the promise is
  rejected (retries exhausted), or the decoded body has an \<^verbatim>\<open>error\<close> property, or it is a
  registry document. The registry is a parameter \<open>fetchJson\<close> of every function that
  reaches it, from the requested path to the answer.
\<close>

datatype fetched =
    Rejected exn
  | ErrorPayload string
  | Document NpmInfoRaw

text \<open>The client's state is the list of the paths it has requested, oldest first.\<close>

record UncachedNpmInfoClient =
  requests :: "string list"

definition fetchRawNpmInfo ::
  "(string \<Rightarrow> fetched) \<Rightarrow> string \<Rightarrow> UncachedNpmInfoClient
    \<Rightarrow> (exn + NpmInfoRaw option) \<times> UncachedNpmInfoClient" where
  "fetchRawNpmInfo fetchJson escapedPackageName this =
     (let this' = this \<lparr> requests := requests this @ [escapedPackageName] \<rparr> in
      case fetchJson escapedPackageName of
        Rejected e \<Rightarrow> (Inl e, this')
      | ErrorPayload err \<Rightarrow>
          if err = ''Not found'' then (Inr None, this')
          else (Inl (Error (''Error getting version at '' @ escapedPackageName @ '': '' @ err)),
                this')
      | Document info \<Rightarrow> (Inr (Some info), this'))"

text \<open>The pause after the request (\<^verbatim>\<open>sleep(0.01)\<close>) is time only and has no counterpart here.\<close>

definition fetchNpmInfo ::
  "(string \<Rightarrow> fetched) \<Rightarrow> string \<Rightarrow> UncachedNpmInfoClient
    \<Rightarrow> (exn + NpmInfo option) \<times> UncachedNpmInfoClient" where
  "fetchNpmInfo fetchJson escapedPackageName this =
     (case fetchRawNpmInfo fetchJson escapedPackageName this of
        (Inl e, this') \<Rightarrow> (Inl e, this')
      | (Inr raw, this') \<Rightarrow>
          (Inr (case raw of None \<Rightarrow> None | Some r \<Rightarrow> Some (npmInfoFromJson r)), this'))"

subsection \<open>\<^verbatim>\<open>CachedNpmInfoClient\<close>\<close>

record CachedNpmInfoClient =
  uncachedClient :: UncachedNpmInfoClient
  cache :: "(string \<times> NpmInfo) list"

definition getNpmInfo ::
  "(string \<Rightarrow> fetched) \<Rightarrow> string \<Rightarrow> string option \<Rightarrow> CachedNpmInfoClient
    \<Rightarrow> (exn + NpmInfo option) \<times> CachedNpmInfoClient" where
  "getNpmInfo fetchJson escapedPackageName contentHash this =
     (let cached = Map_get (cache this) escapedPackageName in
      if (case cached of
            None \<Rightarrow> False
          | Some c \<Rightarrow>
              (case contentHash of
                 None \<Rightarrow> False
               | Some h \<Rightarrow>
                   some (Map_values (NpmInfo.versions c))
                     (\<lambda>v. typesPublisherContentHash v = h)))
      then (Inr cached, this)
      else
        (case fetchNpmInfo fetchJson escapedPackageName (uncachedClient this) of
           (Inl e, u) \<Rightarrow> (Inl e, this \<lparr> uncachedClient := u \<rparr>)
         | (Inr info, u) \<Rightarrow>
             (Inr info,
              (case info of
                 None \<Rightarrow> this \<lparr> uncachedClient := u \<rparr>
               | Some i \<Rightarrow>
                   (case contentHash of
                      None \<Rightarrow> this \<lparr> uncachedClient := u \<rparr>
                    | Some h \<Rightarrow>
                        this \<lparr> uncachedClient := u,
                               cache := Map_set escapedPackageName i (cache this) \<rparr>)))))"

text \<open>
  The cache file: \<open>None\<close> when \<^verbatim>\<open>pathExists(cacheFile)\<close> is false, otherwise the object
  that \<^verbatim>\<open>readJson\<close> returns. \<open>cacheWrites\<close> records every \<^verbatim>\<open>writeJson(cacheFile, ...)\<close>, oldest
  first. The file operations themselves are taken to succeed.
\<close>

record disk =
  cacheFile :: "(string \<times> NpmInfoRaw) list option"
  cacheWrites :: "(string \<times> NpmInfoRaw) list list"

definition writeCache :: "CachedNpmInfoClient \<Rightarrow> disk \<Rightarrow> disk" where
  "writeCache this d =
     (let content = mapToRecord (cache this) jsonFromNpmInfo in
      d \<lparr> cacheFile := Some content, cacheWrites := cacheWrites d @ [content] \<rparr>)"

text \<open>
  \<^verbatim>\<open>CachedNpmInfoClient.with\<close>. The unit of work \<open>cb\<close> receives the client and returns its
  outcome together with the client as it left it. \<^verbatim>\<open>await cb(client)\<close> stands outside any
  \<^verbatim>\<open>try\<close>: a rejection leaves the function at that line. The result comes with the
  uncached client and the disk as they are afterwards.
\<close>

definition with_session ::
  "UncachedNpmInfoClient \<Rightarrow> (CachedNpmInfoClient \<Rightarrow> (exn + 'a) \<times> CachedNpmInfoClient)
    \<Rightarrow> disk \<Rightarrow> (exn + 'a) \<times> UncachedNpmInfoClient \<times> disk" where
  "with_session uncached cb d =
     (let client = \<lparr> uncachedClient = uncached,
                     cache = (case cacheFile d of
                                Some content \<Rightarrow> recordToMap content npmInfoFromJson
                              | None \<Rightarrow> []) \<rparr> in
      case cb client of
        (Inl e, client') \<Rightarrow> (Inl e, uncachedClient client', d)
      | (Inr res, client') \<Rightarrow> (Inr res, uncachedClient client', writeCache client' d))"

text \<open>The spec's cache hit condition (section 4.3, step 2), in the words of the spec.\<close>

definition cacheHit :: "CachedNpmInfoClient \<Rightarrow> string \<Rightarrow> string option \<Rightarrow> bool" where
  "cacheHit this name contentHash =
     (case Map_get (cache this) name of
        None \<Rightarrow> False
      | Some cached \<Rightarrow>
          (case contentHash of
             None \<Rightarrow> False
           | Some h \<Rightarrow>
               (\<exists>v \<in> set (Map_values (NpmInfo.versions cached)).
                  typesPublisherContentHash v = h)))"

subsection \<open>\<^verbatim>\<open>NpmPublishClient\<close>\<close>

text \<open>
  \<^verbatim>\<open>String.prototype.replace\<close> with a string pattern: the first occurrence only. The
  replacement is copied as it is (the \<^verbatim>\<open>$\<close> patterns of a replacement string are not
  modelled; \<^verbatim>\<open>"%2f"\<close> has none).
\<close>

fun replace :: "string \<Rightarrow> string \<Rightarrow> string \<Rightarrow> string" where
  "replace [] pat rep = (if pat = [] then rep else [])"
| "replace (c # cs) pat rep =
     (if prefix pat (c # cs) then rep @ drop (length pat) (c # cs)
      else c # replace cs pat rep)"

record Credentials =
  token :: string

text \<open>
  Modelled from the spec: \<^verbatim>\<open>createTgz\<close> of \<^verbatim>\<open>../util/tgz\<close> is not among the sources. The spec
  has it package the contents of the directory into the payload; \<open>TgzOf dir\<close> is that
  stream, and what it holds is not modelled. An error the stream reports later through its
  callback finds the promise of a dry run settled already.
\<close>

datatype tgz = TgzOf string

definition createTgz :: "string \<Rightarrow> tgz" where
  "createTgz dir = TgzOf dir"

record PublishParams =
  access :: string
  auth :: Credentials
  metadata :: "(string \<times> json) list"
  body :: tgz

record TagParams =
  version :: string
  tag :: string
  auth :: Credentials

record DeprecateParams =
  message :: string
  version :: string
  auth :: Credentials

text \<open>A call of the registry client \<^verbatim>\<open>RegClient\<close>, with the URI it is sent to.\<close>

datatype registry_call =
    Publish string PublishParams
  | Tag string TagParams
  | Deprecate string DeprecateParams

text \<open>
  What the program does to the outside, in order. \<open>RegistryCall\<close> and \<open>RegistryRead\<close> reach
  the registry over the network. \<open>ClientPublish\<close> is the workflow's call
  \<^verbatim>\<open>client.publish(outputPath, packageJson, dry)\<close> of a publish client whose code is not among
  the sources; it is counted as reaching the registry whatever \<^verbatim>\<open>dry\<close> is. The others
  write local files.
\<close>

datatype effect =
    RegistryCall registry_call
  | RegistryRead string bool
  | ClientPublish string "(string \<times> json) list" bool
  | ClearOutputPath string
  | WriteJson string json
  | WriteLog string "string list"

fun reachesRegistry :: "effect \<Rightarrow> bool" where
  "reachesRegistry (RegistryCall c) = True"
| "reachesRegistry (RegistryRead name isPrerelease) = True"
| "reachesRegistry (ClientPublish dir packageJson dry) = True"
| "reachesRegistry (ClearOutputPath p) = False"
| "reachesRegistry (WriteJson p content) = False"
| "reachesRegistry (WriteLog p content) = False"

record TypingsData =
  typingsPackageName :: string

text \<open>
  The collaborators whose code is not among the sources, as parameters: the settings, the
  file and path helpers, Node's \<^verbatim>\<open>url.resolve\<close> and \<^verbatim>\<open>path.join\<close>, the secret store, the
  registry client (the error it hands to the callback, \<open>None\<close> for success) and what the
  workflow reads. \<open>fetchVersionInfoFromNpm\<close> gives the patch number of the version it finds,
  a non-negative integer among JavaScript's numbers. Reads may fail; writes are effects and
  are taken to succeed.

  The workflow's publish client is the default export of \<^verbatim>\<open>./lib/npm-client\<close>, which is not
  among the sources (\<^verbatim>\<open>part_000\<close> has no default export), so it is a parameter too:
  \<open>npmClientCreate\<close> is the rejection of \<^verbatim>\<open>create()\<close>, \<open>None\<close> when the client is created, and
  \<open>npmClientPublish\<close> the rejection of its \<^verbatim>\<open>publish(directory, packageJson, dry)\<close>, \<open>None\<close>
  when it resolves. \<open>exponentForm\<close> is what \<^verbatim>\<open>Number.prototype.toString\<close> prints for a number
  from \<open>10\<^sup>2\<^sup>1\<close> on.
\<close>

record env =
  npmRegistry :: string
  url_resolve :: "string \<Rightarrow> string \<Rightarrow> string"
  joinPaths :: "string \<Rightarrow> string \<Rightarrow> string"
  readFile :: "string \<Rightarrow> exn + string"
  getSecret :: "exn + string"
  regClient :: "registry_call \<Rightarrow> exn option"
  settings_outputPath :: string
  path_join :: "string \<Rightarrow> string \<Rightarrow> string"
  readAdditions :: "exn + string list"
  readTypings :: "exn + TypingsData list"
  fetchVersionInfoFromNpm :: "string \<Rightarrow> bool \<Rightarrow> exn + nat"
  clearOutputPathLog :: "string \<Rightarrow> string list"
  JSON_stringify :: "string list \<Rightarrow> string"
  npmClientCreate :: "exn option"
  npmClientPublish :: "string \<Rightarrow> (string \<times> json) list \<Rightarrow> bool \<Rightarrow> exn option"
  exponentForm :: "nat \<Rightarrow> string"

definition packageUrl :: "env \<Rightarrow> string \<Rightarrow> string" where
  "packageUrl env name = url_resolve env (npmRegistry env) name"

record NpmPublishClient =
  client :: "registry_call \<Rightarrow> exn option"
  auth :: Credentials

definition NpmPublishClient_create :: "env \<Rightarrow> exn + NpmPublishClient" where
  "NpmPublishClient_create env =
     (case getSecret env of
        Inl e \<Rightarrow> Inl e
      | Inr t \<Rightarrow> Inr \<lparr> client = regClient env, NpmPublishClient.auth = \<lparr> token = t \<rparr> \<rparr>)"

text \<open>
  \<^verbatim>\<open>promisifyVoid\<close>, given the error the callback received: a truthy error rejects.
\<close>

definition promisifyVoid :: "exn option \<Rightarrow> exn + unit" where
  "promisifyVoid error = (case error of Some e \<Rightarrow> Inl e | None \<Rightarrow> Inr ())"

text \<open>
  The object literal \<^verbatim>\<open>{ readme, ...packageJson }\<close>: the properties of the source are
  assigned onto the target in order.
\<close>

definition objectSpread ::
  "(string \<times> json) list \<Rightarrow> (string \<times> json) list \<Rightarrow> (string \<times> json) list" where
  "objectSpread target source = fold (\<lambda>(key, v) obj. AList.update key v obj) source target"

definition NpmPublishClient_publish ::
  "env \<Rightarrow> NpmPublishClient \<Rightarrow> string \<Rightarrow> (string \<times> json) list \<Rightarrow> bool \<Rightarrow> effect list
    \<Rightarrow> (exn + unit) \<times> effect list" where
  "NpmPublishClient_publish env this publishedDirectory packageJson dry world =
     (case readFile env (joinPaths env publishedDirectory ''README.md'') of
        Inl e \<Rightarrow> (Inl e, world)
      | Inr readmeText \<Rightarrow>
          (let params = \<lparr> access = ''public'',
                          PublishParams.auth = NpmPublishClient.auth this,
                          metadata = objectSpread [(''readme'', JString readmeText)] packageJson,
                          body = createTgz publishedDirectory \<rparr>
           in if dry then (Inr (), world)
              else
                (case client this (Publish (npmRegistry env) params) of
                   Some err \<Rightarrow> (Inl err, world @ [RegistryCall (Publish (npmRegistry env) params)])
                 | None \<Rightarrow> (Inr (), world @ [RegistryCall (Publish (npmRegistry env) params)]))))"

definition NpmPublishClient_tag ::
  "env \<Rightarrow> NpmPublishClient \<Rightarrow> string \<Rightarrow> string \<Rightarrow> string \<Rightarrow> effect list
    \<Rightarrow> (exn + unit) \<times> effect list" where
  "NpmPublishClient_tag env this name ver tagName world =
     (let params = \<lparr> TagParams.version = ver, tag = tagName,
                     TagParams.auth = NpmPublishClient.auth this \<rparr>;
          call = Tag (packageUrl env name) params
      in (promisifyVoid (client this call), world @ [RegistryCall call]))"

definition deprecate ::
  "env \<Rightarrow> NpmPublishClient \<Rightarrow> string \<Rightarrow> string \<Rightarrow> string \<Rightarrow> effect list
    \<Rightarrow> (exn + unit) \<times> effect list" where
  "deprecate env this name ver msg world =
     (let url = packageUrl env (replace name ''/'' ''%2f'');
          params = \<lparr> message = msg, DeprecateParams.version = ver,
                     DeprecateParams.auth = NpmPublishClient.auth this \<rparr>;
          call = Deprecate url params
      in (promisifyVoid (client this call), world @ [RegistryCall call]))"

section \<open>The registry workflow (\<^verbatim>\<open>src/bin/publish-registry.js\<close>)\<close>

definition packageName :: string where
  "packageName = ''types-registry''"

definition outputPath :: "env \<Rightarrow> string" where
  "outputPath env = path_join env (settings_outputPath env) packageName"

definition readme :: string where
  "readme = ''This package contains a listing of all packages published to the @types scope on NPM.''
     @ [CHR 0x0A]
     @ ''Generated by [types-publisher](https://github.com/Microsoft/types-publisher).''"

subsection \<open>JavaScript numbers and plain objects\<close>

text \<open>
  \<^verbatim>\<open>last + 1\<close> on IEEE doubles, for a non-negative integer \<open>n\<close> that is a double. Below
  \<open>2\<^sup>5\<^sup>3\<close> the sum is exact. From \<open>2\<^sup>5\<^sup>3\<close> to \<open>2\<^sup>5\<^sup>4\<close> the doubles are the even numbers, so
  \<open>n + 1\<close> lies halfway between two of them and is rounded to the one with the even
  significand. From \<open>2\<^sup>5\<^sup>4\<close> on the doubles are at least 4 apart and the sum is rounded back
  to \<open>n\<close>.
\<close>

definition numberPlusOne :: "nat \<Rightarrow> nat" where
  "numberPlusOne n =
     (if n < 2 ^ 53 then n + 1
      else if n < 2 ^ 54 then (if even (n div 2) then n else n + 2)
      else n)"

fun decimal :: "nat \<Rightarrow> string" where
  "decimal n =
     (if n < 10 then [''0123456789'' ! n]
      else decimal (n div 10) @ [''0123456789'' ! (n mod 10)])"

declare decimal.simps [simp del]

text \<open>
  A template literal prints a number with \<^verbatim>\<open>Number.prototype.toString\<close>: the decimal digits
  for a non-negative integer below \<open>10\<^sup>2\<^sup>1\<close>, the exponent form from there on.
\<close>

definition numberToString :: "env \<Rightarrow> nat \<Rightarrow> string" where
  "numberToString env n = (if n < 10 ^ 21 then decimal n else exponentForm env n)"

text \<open>The number that a string of decimal digits denotes.\<close>

definition digitValue :: "char \<Rightarrow> nat" where
  "digitValue c = length (takeWhile (\<lambda>d. d \<noteq> c) ''0123456789'')"

definition decimalValue :: "string \<Rightarrow> nat" where
  "decimalValue s = foldl (\<lambda>n c. 10 * n + digitValue c) 0 s"

text \<open>
  A property key is an array index when it is the canonical decimal string of an integer
  below \<open>2\<^sup>3\<^sup>2 - 1\<close>. An object enumerates its array indices first, in ascending order, and
  its other string keys after them, in the order they were created.
\<close>

definition isArrayIndex :: "string \<Rightarrow> bool" where
  "isArrayIndex key =
     (key \<noteq> [] \<and> list_all (\<lambda>c. c \<in> set ''0123456789'') key
      \<and> (key = ''0'' \<or> hd key \<noteq> CHR ''0'') \<and> decimalValue key < 2 ^ 32 - 1)"

fun insertIndexKey :: "string \<Rightarrow> json \<Rightarrow> (string \<times> json) list \<Rightarrow> (string \<times> json) list" where
  "insertIndexKey key v [] = [(key, v)]"
| "insertIndexKey key v ((k, w) # obj) =
     (if isArrayIndex k \<and> decimalValue k < decimalValue key
      then (k, w) # insertIndexKey key v obj
      else (key, v) # (k, w) # obj)"

text \<open>
  The assignment \<^verbatim>\<open>obj[key] = v\<close> on an object created by \<^verbatim>\<open>{}\<close>. The key \<^verbatim>\<open>__proto__\<close> is
  the accessor inherited from \<^verbatim>\<open>Object.prototype\<close>: the assignment runs its setter and creates
  no property (the setter ignores a value that is neither an object nor \<^verbatim>\<open>null\<close>; the change
  of prototype for such a value is not modelled). An existing property keeps its place.
\<close>

definition setProperty :: "string \<Rightarrow> json \<Rightarrow> (string \<times> json) list \<Rightarrow> (string \<times> json) list" where
  "setProperty key v obj =
     (if key = ''__proto__'' then obj
      else if key \<in> fst ` set obj then AList.update key v obj
      else if isArrayIndex key then insertIndexKey key v obj
      else obj @ [(key, v)])"

subsection \<open>The workflow\<close>

definition generatePackageJson :: "env \<Rightarrow> nat \<Rightarrow> (string \<times> json) list" where
  "generatePackageJson env patch =
     [(''name'', JString packageName),
      (''version'', JString (''0.1.'' @ numberToString env patch)),
      (''description'', JString
         ''A registry of TypeScript declaration file packages published within the @types scope.''),
      (''repository'', JObject
         [(''type'', JString ''git''),
          (''url'', JString ''https://github.com/Microsoft/types-publisher.git'')]),
      (''keywords'', JArray
         [JString ''TypeScript'', JString ''declaration'', JString ''files'', JString ''types'',
          JString ''packages'']),
      (''author'', JString ''Microsoft Corp.''),
      (''license'', JString ''Apache-2.0'')]"

text \<open>The loop of \<open>generateRegistry\<close> over the typings, \<open>entries\<close> being the object so far.\<close>

fun registryEntries :: "TypingsData list \<Rightarrow> (string \<times> json) list \<Rightarrow> (string \<times> json) list" where
  "registryEntries [] entries = entries"
| "registryEntries (t # typings) entries =
     registryEntries typings (setProperty (typingsPackageName t) (JNumber 1) entries)"

definition generateRegistry :: "TypingsData list \<Rightarrow> json" where
  "generateRegistry typings = JObject [(''entries'', JObject (registryEntries typings []))]"

definition fetchLastPatchNumber :: "env \<Rightarrow> effect list \<Rightarrow> (exn + nat) \<times> effect list" where
  "fetchLastPatchNumber env world =
     (fetchVersionInfoFromNpm env packageName False, world @ [RegistryRead packageName False])"

text \<open>
  \<open>generate\<close> hands the logger to \<^verbatim>\<open>clearOutputPath\<close>; the lines logged so far are passed in
  and returned.
\<close>

definition generate ::
  "env \<Rightarrow> TypingsData list \<Rightarrow> (string \<times> json) list \<Rightarrow> string list \<Rightarrow> effect list
    \<Rightarrow> string list \<times> effect list" where
  "generate env typings packageJson logged world =
     (logged @ clearOutputPathLog env (outputPath env),
      world @
        [ClearOutputPath (outputPath env),
         WriteJson (path_join env (outputPath env) ''package.json'') (JObject packageJson),
         WriteJson (path_join env (outputPath env) ''index.json'') (generateRegistry typings),
         WriteJson (path_join env (outputPath env) ''README.md'') (JString readme)])"

definition publish ::
  "env \<Rightarrow> (string \<times> json) list \<Rightarrow> bool \<Rightarrow> effect list \<Rightarrow> (exn + unit) \<times> effect list" where
  "publish env packageJson dry world =
     (case npmClientCreate env of
        Some e \<Rightarrow> (Inl e, world)
      | None \<Rightarrow>
          (case npmClientPublish env (outputPath env) packageJson dry of
             Some e \<Rightarrow> (Inl e, world @ [ClientPublish (outputPath env) packageJson dry])
           | None \<Rightarrow> (Inr (), world @ [ClientPublish (outputPath env) packageJson dry])))"

definition generateAndPublishRegistry ::
  "env \<Rightarrow> string list \<Rightarrow> bool \<Rightarrow> effect list \<Rightarrow> (exn + string list) \<times> effect list" where
  "generateAndPublishRegistry env logged dry world =
     (case readTypings env of
        Inl e \<Rightarrow> (Inl e, world)
      | Inr typings \<Rightarrow>
          (case fetchLastPatchNumber env world of
             (Inl e, world1) \<Rightarrow> (Inl e, world1)
           | (Inr lastPatch, world1) \<Rightarrow>
               (let packageJson = generatePackageJson env (numberPlusOne lastPatch) in
                case generate env typings packageJson logged world1 of
                  (logged', world2) \<Rightarrow>
                    (case publish env packageJson dry world2 of
                       (Inl e, world3) \<Rightarrow> (Inl e, world3)
                     | (Inr u, world3) \<Rightarrow> (Inr logged', world3)))))"

text \<open>
  \<open>main\<close>: the logger starts empty; \<^verbatim>\<open>writeLog\<close> is reached only when nothing before it was
  rejected.
\<close>

definition main :: "env \<Rightarrow> bool \<Rightarrow> effect list \<Rightarrow> (exn + unit) \<times> effect list" where
  "main env dry world =
     (let logged = [''=== Publishing types-registry ===''] in
      case readAdditions env of
        Inl e \<Rightarrow> (Inl e, world)
      | Inr added \<Rightarrow>
          if added \<noteq> [] then
            (case generateAndPublishRegistry env
                    (logged @ [''New packages have been added: '' @ JSON_stringify env added
                                @ '', so publishing a new registry''])
                    dry world of
               (Inl e, world') \<Rightarrow> (Inl e, world')
             | (Inr logged', world') \<Rightarrow>
                 (Inr (), world' @ [WriteLog ''publish-registry.md'' logged']))
          else
            (Inr (),
             world @ [WriteLog ''publish-registry.md''
               (logged @ [''No new packages published, so no need to publish new registry.''])]))"

section \<open>Example inputs\<close>

text \<open>
  A registry that knows one package, answers one path with an error of its own and reports
  every other path as not found; clients with an empty, a current and a stale cache; two
  units of work, the second of which fails at its second package; and an environment for
  the publish client and the workflow, in which \<^verbatim>\<open>url.resolve\<close> and the path helpers
  join their arguments as they do for plain relative names. Its publish client accepts
  every call; its exponent form is never reached by the examples.
\<close>

definition exampleRaw :: NpmInfoRaw where
  "exampleRaw =
     \<lparr> NpmInfoRaw.version = ''1.0.0'',
       dist_tags = [(''latest'', ''1.0.0'')],
       versions = [(''1.0.0'', \<lparr> typesPublisherContentHash = ''H'', deprecated = None,
                                otherVersionProperties = [(''name'', JString ''left-pad'')] \<rparr>)],
       time = \<lparr> modified = ''2017-01-01'', otherTimeProperties = [] \<rparr>,
       otherProperties = [(''license'', JString ''MIT'')] \<rparr>"

definition exampleRegistry :: "string \<Rightarrow> fetched" where
  "exampleRegistry path =
     (if path = ''left-pad'' then Document exampleRaw
      else if path = ''broken'' then ErrorPayload ''Internal error''
      else ErrorPayload ''Not found'')"

definition exampleInfo :: NpmInfo where
  "exampleInfo = npmInfoFromJson exampleRaw"

definition freshClient :: CachedNpmInfoClient where
  "freshClient = \<lparr> uncachedClient = \<lparr> requests = [] \<rparr>, cache = [] \<rparr>"

definition warmClient :: CachedNpmInfoClient where
  "warmClient = \<lparr> uncachedClient = \<lparr> requests = [] \<rparr>, cache = [(''left-pad'', exampleInfo)] \<rparr>"

definition staleClient :: CachedNpmInfoClient where
  "staleClient = \<lparr> uncachedClient = \<lparr> requests = [] \<rparr>, cache = [(''unpublished'', exampleInfo)] \<rparr>"

definition batchOfOne ::
  "CachedNpmInfoClient \<Rightarrow> (exn + NpmInfo option) \<times> CachedNpmInfoClient" where
  "batchOfOne session = getNpmInfo exampleRegistry ''left-pad'' (Some ''H'') session"

definition batchOfTwo ::
  "CachedNpmInfoClient \<Rightarrow> (exn + NpmInfo option) \<times> CachedNpmInfoClient" where
  "batchOfTwo session =
     (case getNpmInfo exampleRegistry ''left-pad'' (Some ''H'') session of
        (Inl e, session1) \<Rightarrow> (Inl e, session1)
      | (Inr first, session1) \<Rightarrow> getNpmInfo exampleRegistry ''broken'' (Some ''H'') session1)"

definition emptyDisk :: disk where
  "emptyDisk = \<lparr> cacheFile = None, cacheWrites = [] \<rparr>"

definition exampleEnv :: env where
  "exampleEnv =
     \<lparr> npmRegistry = ''https://registry.npmjs.org/'',
       url_resolve = (\<lambda>base relative. base @ relative),
       joinPaths = (\<lambda>dir file. dir @ ''/'' @ file),
       readFile = (\<lambda>path. if path = ''output/types-registry/README.md''
                            then Inr ''registry readme''
                            else Inl (Error (''ENOENT: no such file or directory, open '' @ path))),
       getSecret = Inr ''secret-token'',
       regClient = (\<lambda>call. None),
       settings_outputPath = ''output'',
       path_join = (\<lambda>dir file. dir @ ''/'' @ file),
       readAdditions = Inr [''jquery''],
       readTypings = Inr [\<lparr> typingsPackageName = ''jquery'' \<rparr>, \<lparr> typingsPackageName = ''node'' \<rparr>],
       fetchVersionInfoFromNpm = (\<lambda>name isPrerelease. Inr 41),
       clearOutputPathLog = (\<lambda>path. []),
       JSON_stringify =
         (\<lambda>names. case names of
                    [] \<Rightarrow> ''[]''
                  | n # ns \<Rightarrow>
                      ''['' @ [CHR 0x22] @ n @ [CHR 0x22]
                        @ concat (map (\<lambda>m. '','' @ [CHR 0x22] @ m @ [CHR 0x22]) ns) @ '']''),
       npmClientCreate = None,
       npmClientPublish = (\<lambda>dir packageJson dry. None),
       exponentForm = (\<lambda>n. ''1e+21'') \<rparr>"

definition quietEnv :: env where
  "quietEnv = exampleEnv \<lparr> readAdditions := Inr [] \<rparr>"

definition exampleClient :: NpmPublishClient where
  "exampleClient = \<lparr> client = regClient exampleEnv, NpmPublishClient.auth = \<lparr> token = ''secret-token'' \<rparr> \<rparr>"

text \<open>
  An environment in which a package is called \<^verbatim>\<open>__proto__\<close> and the last published patch
  number is \<open>2\<^sup>5\<^sup>3\<close>.
\<close>

definition edgeEnv :: env where
  "edgeEnv = exampleEnv
     \<lparr> readTypings := Inr [\<lparr> typingsPackageName = ''__proto__'' \<rparr>],
       fetchVersionInfoFromNpm := (\<lambda>name isPrerelease. Inr 9007199254740992) \<rparr>"

section \<open>Properties of the npm client\<close>

subsection \<open>Auxiliary facts\<close>

lemma fetchNpmInfo_requests:
  "requests (snd (fetchNpmInfo fetchJson name this)) = requests this @ [name]"
  by (simp add: fetchNpmInfo_def fetchRawNpmInfo_def Let_def split: fetched.splits)

lemma getNpmInfo_hit:
  "cacheHit this name contentHash \<Longrightarrow>
     getNpmInfo fetchJson name contentHash this = (Inr (Map_get (cache this) name), this)"
  by (auto simp add: getNpmInfo_def cacheHit_def some_def list_ex_iff Let_def split: option.splits)

lemma getNpmInfo_miss:
  "\<not> cacheHit this name contentHash \<Longrightarrow>
     getNpmInfo fetchJson name contentHash this =
       (case fetchNpmInfo fetchJson name (uncachedClient this) of
          (Inl e, u) \<Rightarrow> (Inl e, this \<lparr> uncachedClient := u \<rparr>)
        | (Inr None, u) \<Rightarrow> (Inr None, this \<lparr> uncachedClient := u \<rparr>)
        | (Inr (Some i), u) \<Rightarrow>
            (Inr (Some i),
             (case contentHash of
                None \<Rightarrow> this \<lparr> uncachedClient := u \<rparr>
              | Some h \<Rightarrow> this \<lparr> uncachedClient := u, cache := Map_set name i (cache this) \<rparr>)))"
  by (auto simp add: getNpmInfo_def cacheHit_def some_def list_ex_iff Let_def split: option.splits sum.splits prod.splits)

lemma Map_get_Map_set: "Map_get (Map_set key v m) key = Some v"
  by (simp add: Map_get_def Map_set_def update_conv')

lemma recordToMap_mapToRecord:
  "mapToRecord (recordToMap r f) g = map (\<lambda>(key, v). (key, g (f v))) r"
  by (simp add: mapToRecord_def recordToMap_def split_def)

subsection \<open>The session\<close>

text \<open>
  C1, as the code has it: when the unit of work completes, the cache as the unit of work left
  it is written to the cache file exactly once before \<open>with_session\<close> returns; when the unit
  of work fails, the failure is passed on and the cache file is not written.
\<close>

theorem with_session_outcome:
  "(cb \<lparr> uncachedClient = uncached,
          cache = (case cacheFile d of
                     Some content \<Rightarrow> recordToMap content npmInfoFromJson
                   | None \<Rightarrow> []) \<rparr> = (Inr res, client')
      \<longrightarrow> with_session uncached cb d
            = (Inr res, uncachedClient client',
               d \<lparr> cacheFile := Some (mapToRecord (cache client') jsonFromNpmInfo),
                   cacheWrites := cacheWrites d @ [mapToRecord (cache client') jsonFromNpmInfo] \<rparr>))
   \<and> (cb \<lparr> uncachedClient = uncached,
            cache = (case cacheFile d of
                       Some content \<Rightarrow> recordToMap content npmInfoFromJson
                     | None \<Rightarrow> []) \<rparr> = (Inl e, client')
      \<longrightarrow> with_session uncached cb d = (Inl e, uncachedClient client', d))"
  by (simp add: with_session_def writeCache_def Let_def)

text \<open>
  Both outcomes on the example registry: \<open>batchOfOne\<close> completes and its one cached
  package is written; \<open>batchOfTwo\<close> fails and the disk stays as it was.
\<close>

theorem with_session_outcome_witness:
  "with_session \<lparr> requests = [] \<rparr> batchOfOne emptyDisk
     = (Inr (Some exampleInfo), \<lparr> requests = [''left-pad''] \<rparr>,
        \<lparr> cacheFile = Some [(''left-pad'', jsonFromNpmInfo exampleInfo)],
          cacheWrites = [[(''left-pad'', jsonFromNpmInfo exampleInfo)]] \<rparr>)
   \<and> with_session \<lparr> requests = [] \<rparr> batchOfTwo emptyDisk
     = (Inl (Error ''Error getting version at broken: Internal error''),
        \<lparr> requests = [''left-pad'', ''broken''] \<rparr>, emptyDisk)"
proof -
  have one: "batchOfOne freshClient
      = (Inr (Some exampleInfo),
         \<lparr> uncachedClient = \<lparr> requests = [''left-pad''] \<rparr>,
           cache = [(''left-pad'', exampleInfo)] \<rparr>)"
    by (simp add: batchOfOne_def freshClient_def getNpmInfo_def fetchNpmInfo_def
        fetchRawNpmInfo_def exampleRegistry_def exampleInfo_def Map_get_def Map_set_def)
  have two: "batchOfTwo freshClient
      = (Inl (Error ''Error getting version at broken: Internal error''),
         \<lparr> uncachedClient = \<lparr> requests = [''left-pad'', ''broken''] \<rparr>,
           cache = [(''left-pad'', exampleInfo)] \<rparr>)"
    by (simp add: batchOfTwo_def freshClient_def getNpmInfo_def fetchNpmInfo_def
        fetchRawNpmInfo_def exampleRegistry_def exampleInfo_def Map_get_def Map_set_def)
  from one two
    with_session_outcome [where cb = batchOfOne and uncached = "\<lparr> requests = [] \<rparr>"
      and d = emptyDisk and res = "Some exampleInfo"
      and client' = "\<lparr> uncachedClient = \<lparr> requests = [''left-pad''] \<rparr>,
                       cache = [(''left-pad'', exampleInfo)] \<rparr>"]
    with_session_outcome [where cb = batchOfTwo and uncached = "\<lparr> requests = [] \<rparr>"
      and d = emptyDisk and e = "Error ''Error getting version at broken: Internal error''"
      and client' = "\<lparr> uncachedClient = \<lparr> requests = [''left-pad'', ''broken''] \<rparr>,
                       cache = [(''left-pad'', exampleInfo)] \<rparr>"]
  show ?thesis
    by (simp add: emptyDisk_def freshClient_def mapToRecord_def)
qed

text \<open>
  The claim as made (a write on every exit path) fails for \<open>batchOfTwo\<close>: it caches its
  first package, fails at the second, and the session ends with that failure, no write and
  no cache file.
\<close>

theorem with_session_failure_counterexample:
  "cache (snd (batchOfTwo freshClient)) = [(''left-pad'', exampleInfo)]
   \<and> fst (with_session \<lparr> requests = [] \<rparr> batchOfTwo emptyDisk)
       = Inl (Error ''Error getting version at broken: Internal error'')
   \<and> cacheWrites (snd (snd (with_session \<lparr> requests = [] \<rparr> batchOfTwo emptyDisk))) = []
   \<and> cacheFile (snd (snd (with_session \<lparr> requests = [] \<rparr> batchOfTwo emptyDisk))) = None"
  by (simp add: with_session_def emptyDisk_def batchOfTwo_def freshClient_def getNpmInfo_def
      fetchNpmInfo_def fetchRawNpmInfo_def exampleRegistry_def exampleInfo_def Map_get_def
      Map_set_def)

subsection \<open>\<open>getNpmInfo\<close>\<close>

text \<open>
  C2: with a content hash \<open>h\<close> supplied, if the cache holds an entry for the name and one of
  its versions carries the hash \<open>h\<close>, \<open>getNpmInfo\<close> returns that entry and leaves the client
  as it was (no request, same cache); if there is no such version (or no entry), it makes
  exactly one request.
\<close>

theorem getNpmInfo_hit_or_one_fetch:
  "(Map_get (cache this) name = Some cached
      \<and> (\<exists>v \<in> set (Map_values (NpmInfo.versions cached)). typesPublisherContentHash v = h)
     \<longrightarrow> getNpmInfo fetchJson name (Some h) this = (Inr (Some cached), this))
   \<and> (\<not> (\<exists>c. Map_get (cache this) name = Some c
             \<and> (\<exists>v \<in> set (Map_values (NpmInfo.versions c)). typesPublisherContentHash v = h))
     \<longrightarrow> requests (uncachedClient (snd (getNpmInfo fetchJson name (Some h) this)))
           = requests (uncachedClient this) @ [name])"
proof (intro conjI impI)
  assume "Map_get (cache this) name = Some cached
      \<and> (\<exists>v \<in> set (Map_values (NpmInfo.versions cached)). typesPublisherContentHash v = h)"
  then have "cacheHit this name (Some h)" and "Map_get (cache this) name = Some cached"
    by (simp_all add: cacheHit_def)
  then show "getNpmInfo fetchJson name (Some h) this = (Inr (Some cached), this)"
    by (simp add: getNpmInfo_hit)
next
  assume "\<not> (\<exists>c. Map_get (cache this) name = Some c
             \<and> (\<exists>v \<in> set (Map_values (NpmInfo.versions c)). typesPublisherContentHash v = h))"
  then have "\<not> cacheHit this name (Some h)"
    by (auto simp add: cacheHit_def split: option.splits)
  then show "requests (uncachedClient (snd (getNpmInfo fetchJson name (Some h) this)))
           = requests (uncachedClient this) @ [name]"
    using fetchNpmInfo_requests [of fetchJson name "uncachedClient this"]
    by (auto simp add: getNpmInfo_miss split: prod.splits sum.splits option.splits)
qed

text \<open>
  The cached package is served for its hash \<^verbatim>\<open>H\<close> without a request and fetched once
  for the hash \<^verbatim>\<open>H2\<close>.
\<close>

theorem getNpmInfo_hit_or_one_fetch_witness:
  "getNpmInfo exampleRegistry ''left-pad'' (Some ''H'') warmClient = (Inr (Some exampleInfo), warmClient)
   \<and> requests (uncachedClient (snd (getNpmInfo exampleRegistry ''left-pad'' (Some ''H2'') warmClient)))
       = [''left-pad'']"
  using getNpmInfo_hit_or_one_fetch [where this = warmClient and name = "''left-pad''"
      and cached = exampleInfo and h = "''H''" and fetchJson = exampleRegistry]
    getNpmInfo_hit_or_one_fetch [where this = warmClient and name = "''left-pad''"
      and h = "''H2''" and fetchJson = exampleRegistry]
  by (simp add: warmClient_def exampleInfo_def exampleRaw_def Map_get_def Map_values_def
      npmInfoFromJson_def recordToMap_def)

text \<open>
  C3: on the fetch path \<open>getNpmInfo\<close> returns what the fetch returned, and the cache afterwards
  is the old cache with the fetched document set under the name exactly when the fetch
  returned a document and a content hash was supplied (a lookup of the name then finds that
  document); otherwise it is the old cache. Without a content hash \<open>getNpmInfo\<close> always
  makes its request, returns what the fetch returned and leaves the cache as it was.
\<close>

theorem getNpmInfo_stores_iff:
  "(\<not> cacheHit this name contentHash \<longrightarrow>
      fst (getNpmInfo fetchJson name contentHash this)
        = fst (fetchNpmInfo fetchJson name (uncachedClient this))
      \<and> cache (snd (getNpmInfo fetchJson name contentHash this))
        = (case fst (fetchNpmInfo fetchJson name (uncachedClient this)) of
             Inr (Some info) \<Rightarrow>
               (case contentHash of
                  Some h \<Rightarrow> Map_set name info (cache this)
                | None \<Rightarrow> cache this)
           | _ \<Rightarrow> cache this))
   \<and> Map_get (Map_set name info (cache this)) name = Some info
   \<and> fst (getNpmInfo fetchJson name None this)
       = fst (fetchNpmInfo fetchJson name (uncachedClient this))
   \<and> requests (uncachedClient (snd (getNpmInfo fetchJson name None this)))
       = requests (uncachedClient this) @ [name]
   \<and> cache (snd (getNpmInfo fetchJson name None this)) = cache this"
proof -
  have no_hash: "\<not> cacheHit this name None"
    by (simp add: cacheHit_def split: option.splits)
  have miss: "\<not> cacheHit this name contentHash \<Longrightarrow>
      fst (getNpmInfo fetchJson name contentHash this)
        = fst (fetchNpmInfo fetchJson name (uncachedClient this))
      \<and> cache (snd (getNpmInfo fetchJson name contentHash this))
        = (case fst (fetchNpmInfo fetchJson name (uncachedClient this)) of
             Inr (Some info) \<Rightarrow>
               (case contentHash of
                  Some h \<Rightarrow> Map_set name info (cache this)
                | None \<Rightarrow> cache this)
           | _ \<Rightarrow> cache this)"
    by (simp add: getNpmInfo_miss split: prod.splits sum.splits option.splits)
  have r: "fst (getNpmInfo fetchJson name None this)
       = fst (fetchNpmInfo fetchJson name (uncachedClient this))"
    using no_hash by (simp add: getNpmInfo_miss split: prod.splits sum.splits option.splits)
  have q: "requests (uncachedClient (snd (getNpmInfo fetchJson name None this)))
       = requests (uncachedClient this) @ [name]"
    using no_hash fetchNpmInfo_requests [of fetchJson name "uncachedClient this"]
    by (auto simp add: getNpmInfo_miss split: prod.splits sum.splits option.splits)
  have c: "cache (snd (getNpmInfo fetchJson name None this)) = cache this"
    using no_hash by (simp add: getNpmInfo_miss split: prod.splits sum.splits option.splits)
  from miss r q c Map_get_Map_set [of name info "cache this"] show ?thesis
    by blast
qed

text \<open>
  A fetched document is stored, an absent one is not, and a call without a hash fetches even
  though the package is cached.
\<close>

theorem getNpmInfo_stores_iff_witness:
  "cache (snd (getNpmInfo exampleRegistry ''left-pad'' (Some ''H'') freshClient))
     = [(''left-pad'', exampleInfo)]
   \<and> cache (snd (getNpmInfo exampleRegistry ''unpublished'' (Some ''H'') freshClient)) = []
   \<and> fst (getNpmInfo exampleRegistry ''left-pad'' None warmClient) = Inr (Some exampleInfo)
   \<and> requests (uncachedClient (snd (getNpmInfo exampleRegistry ''left-pad'' None warmClient)))
       = [''left-pad'']
   \<and> cache (snd (getNpmInfo exampleRegistry ''left-pad'' None warmClient)) = cache warmClient"
  using getNpmInfo_stores_iff [where this = freshClient and name = "''left-pad''"
      and contentHash = "Some ''H''" and fetchJson = exampleRegistry]
    getNpmInfo_stores_iff [where this = freshClient and name = "''unpublished''"
      and contentHash = "Some ''H''" and fetchJson = exampleRegistry]
    getNpmInfo_stores_iff [where this = warmClient and name = "''left-pad''"
      and fetchJson = exampleRegistry]
  by (simp add: cacheHit_def Map_get_def Map_set_def freshClient_def warmClient_def
      exampleInfo_def exampleRegistry_def fetchNpmInfo_def fetchRawNpmInfo_def)

text \<open>
  C10: with a content hash supplied, when \<open>getNpmInfo\<close> takes the fetch path and the fetch
  returns absent, the result is absent and the cache is the one it was; an entry stored
  under the name stays.
\<close>

theorem getNpmInfo_absent_keeps_cache:
  "\<not> cacheHit this name (Some h) \<Longrightarrow>
   fst (fetchNpmInfo fetchJson name (uncachedClient this)) = Inr None \<Longrightarrow>
     fst (getNpmInfo fetchJson name (Some h) this) = Inr None
     \<and> cache (snd (getNpmInfo fetchJson name (Some h) this)) = cache this
     \<and> Map_get (cache (snd (getNpmInfo fetchJson name (Some h) this))) name
         = Map_get (cache this) name"
  by (cases "fetchNpmInfo fetchJson name (uncachedClient this)") (simp add: getNpmInfo_miss)

text \<open>
  The stale entry of a package the registry no longer knows survives the call.
\<close>

theorem getNpmInfo_absent_keeps_cache_witness:
  "\<not> cacheHit staleClient ''unpublished'' (Some ''H2'')
   \<and> fst (fetchNpmInfo exampleRegistry ''unpublished'' (uncachedClient staleClient)) = Inr None
   \<and> fst (getNpmInfo exampleRegistry ''unpublished'' (Some ''H2'') staleClient) = Inr None
   \<and> cache (snd (getNpmInfo exampleRegistry ''unpublished'' (Some ''H2'') staleClient))
       = [(''unpublished'', exampleInfo)]"
proof -
  have miss: "\<not> cacheHit staleClient ''unpublished'' (Some ''H2'')"
    by (simp add: cacheHit_def staleClient_def Map_get_def Map_values_def exampleInfo_def
        exampleRaw_def npmInfoFromJson_def recordToMap_def)
  have absent: "fst (fetchNpmInfo exampleRegistry ''unpublished'' (uncachedClient staleClient))
      = Inr None"
    by (simp add: fetchNpmInfo_def fetchRawNpmInfo_def exampleRegistry_def)
  from getNpmInfo_absent_keeps_cache [OF miss absent] miss absent show ?thesis
    by (simp add: staleClient_def)
qed

subsection \<open>Normalisation and fetching\<close>

text \<open>
  C4: writing a normalised document back (\<open>jsonFromNpmInfo\<close> after \<open>npmInfoFromJson\<close>)
  gives the raw document restricted to the four tracked fields: \<^verbatim>\<open>version\<close>, the
  \<^verbatim>\<open>dist-tags\<close> pairs, each version's content hash and deprecation message, and
  \<^verbatim>\<open>time.modified\<close>; every other property, top-level or per version, is dropped. The
  conjuncts after the first spell that out field by field.
\<close>

theorem denormalize_normalize:
  "jsonFromNpmInfo (npmInfoFromJson r) = restrictedToTrackedFields r
   \<and> NpmInfoRaw.version (jsonFromNpmInfo (npmInfoFromJson r)) = NpmInfoRaw.version r
   \<and> dist_tags (jsonFromNpmInfo (npmInfoFromJson r)) = dist_tags r
   \<and> map (\<lambda>(key, v). (key, typesPublisherContentHash v, deprecated v))
         (NpmInfoRaw.versions (jsonFromNpmInfo (npmInfoFromJson r)))
       = map (\<lambda>(key, v). (key, typesPublisherContentHash v, deprecated v)) (NpmInfoRaw.versions r)
   \<and> modified (time (jsonFromNpmInfo (npmInfoFromJson r))) = modified (time r)
   \<and> otherProperties (jsonFromNpmInfo (npmInfoFromJson r)) = []
   \<and> otherTimeProperties (time (jsonFromNpmInfo (npmInfoFromJson r))) = []
   \<and> concat (map (\<lambda>(key, v). otherVersionProperties v)
         (NpmInfoRaw.versions (jsonFromNpmInfo (npmInfoFromJson r)))) = []"
proof -
  have whole: "jsonFromNpmInfo (npmInfoFromJson r) = restrictedToTrackedFields r"
    by (simp add: jsonFromNpmInfo_def npmInfoFromJson_def restrictedToTrackedFields_def
        recordToMap_mapToRecord identity_def split_def)
  have kept: "map (\<lambda>(key, v). (key, typesPublisherContentHash v, deprecated v))
         (NpmInfoRaw.versions (restrictedToTrackedFields r))
       = map (\<lambda>(key, v). (key, typesPublisherContentHash v, deprecated v)) (NpmInfoRaw.versions r)"
    by (simp add: restrictedToTrackedFields_def split_def)
  have dropped: "concat (map (\<lambda>(key, v). otherVersionProperties v)
         (NpmInfoRaw.versions (restrictedToTrackedFields r))) = []"
    by (simp add: restrictedToTrackedFields_def split_def)
  from whole kept dropped show ?thesis
    by (simp add: restrictedToTrackedFields_def)
qed

text \<open>
  C5: \<open>fetchNpmInfo\<close> returns absent exactly when the registry answers with the error payload
  \<^verbatim>\<open>"Not found"\<close>; any other error payload is a failure whose message contains the package
  name and the registry's error message; a document is normalised and returned.
\<close>

theorem fetchNpmInfo_outcomes:
  "(fst (fetchNpmInfo fetchJson name this) = Inr None \<longleftrightarrow> fetchJson name = ErrorPayload ''Not found'')
   \<and> (fetchJson name = ErrorPayload err \<and> err \<noteq> ''Not found'' \<longrightarrow>
        fst (fetchNpmInfo fetchJson name this)
          = Inl (Error (''Error getting version at '' @ name @ '': '' @ err))
        \<and> sublist name (''Error getting version at '' @ name @ '': '' @ err)
        \<and> sublist err (''Error getting version at '' @ name @ '': '' @ err))
   \<and> (fetchJson name = Document r \<longrightarrow>
        fst (fetchNpmInfo fetchJson name this) = Inr (Some (npmInfoFromJson r)))"
proof -
  have absent: "fst (fetchNpmInfo fetchJson name this) = Inr None
      \<longleftrightarrow> fetchJson name = ErrorPayload ''Not found''"
    by (simp add: fetchNpmInfo_def fetchRawNpmInfo_def Let_def split: fetched.splits)
  have name_carried: "sublist name (''Error getting version at '' @ name @ '': '' @ err)"
    by (rule sublist_appendI)
  have "sublist err ((''Error getting version at '' @ name @ '': '') @ err @ [])"
    by (rule sublist_appendI)
  then have err_carried: "sublist err (''Error getting version at '' @ name @ '': '' @ err)"
    by simp
  have failure: "fetchJson name = ErrorPayload err \<Longrightarrow> err \<noteq> ''Not found'' \<Longrightarrow>
      fst (fetchNpmInfo fetchJson name this)
        = Inl (Error (''Error getting version at '' @ name @ '': '' @ err))"
    by (simp add: fetchNpmInfo_def fetchRawNpmInfo_def Let_def)
  have document: "fetchJson name = Document r \<Longrightarrow>
      fst (fetchNpmInfo fetchJson name this) = Inr (Some (npmInfoFromJson r))"
    by (simp add: fetchNpmInfo_def fetchRawNpmInfo_def Let_def)
  from absent name_carried err_carried failure document show ?thesis by blast
qed

text \<open>
  The three answers of the example registry.
\<close>

theorem fetchNpmInfo_outcomes_witness:
  "fst (fetchNpmInfo exampleRegistry ''missing'' \<lparr> requests = [] \<rparr>) = Inr None
   \<and> fst (fetchNpmInfo exampleRegistry ''broken'' \<lparr> requests = [] \<rparr>)
       = Inl (Error ''Error getting version at broken: Internal error'')
   \<and> sublist ''broken'' ''Error getting version at broken: Internal error''
   \<and> sublist ''Internal error'' ''Error getting version at broken: Internal error''
   \<and> fst (fetchNpmInfo exampleRegistry ''left-pad'' \<lparr> requests = [] \<rparr>)
       = Inr (Some (npmInfoFromJson exampleRaw))"
  using fetchNpmInfo_outcomes [where fetchJson = exampleRegistry and name = "''missing''"
      and this = "\<lparr> requests = [] \<rparr>"]
    fetchNpmInfo_outcomes [where fetchJson = exampleRegistry and name = "''broken''"
      and err = "''Internal error''" and this = "\<lparr> requests = [] \<rparr>"]
    fetchNpmInfo_outcomes [where fetchJson = exampleRegistry and name = "''left-pad''"
      and r = exampleRaw and this = "\<lparr> requests = [] \<rparr>"]
  by (simp add: exampleRegistry_def)

subsection \<open>The publish client\<close>

lemma exampleEnv_fields:
  "npmRegistry exampleEnv = ''https://registry.npmjs.org/''"
  "url_resolve exampleEnv base relative = base @ relative"
  "joinPaths exampleEnv dir file = dir @ ''/'' @ file"
  "readFile exampleEnv path =
     (if path = ''output/types-registry/README.md'' then Inr ''registry readme''
      else Inl (Error (''ENOENT: no such file or directory, open '' @ path)))"
  "getSecret exampleEnv = Inr ''secret-token''"
  "regClient exampleEnv call = None"
  "settings_outputPath exampleEnv = ''output''"
  "path_join exampleEnv dir file = dir @ ''/'' @ file"
  "readAdditions exampleEnv = Inr [''jquery'']"
  "readTypings exampleEnv
     = Inr [\<lparr> typingsPackageName = ''jquery'' \<rparr>, \<lparr> typingsPackageName = ''node'' \<rparr>]"
  "fetchVersionInfoFromNpm exampleEnv name isPrerelease = Inr 41"
  "clearOutputPathLog exampleEnv path = []"
  "JSON_stringify exampleEnv [n] = ''['' @ [CHR 0x22] @ n @ [CHR 0x22] @ '']''"
  "npmClientCreate exampleEnv = None"
  "npmClientPublish exampleEnv dir packageJson dry = None"
  by (simp_all add: exampleEnv_def)

lemma exampleClient_fields:
  "client exampleClient call = None"
  "NpmPublishClient.auth exampleClient = \<lparr> token = ''secret-token'' \<rparr>"
  by (simp_all add: exampleClient_def exampleEnv_fields)

lemma replace_first_slash:
  "CHR ''/'' \<notin> set pre \<Longrightarrow> replace (pre @ CHR ''/'' # post) [CHR ''/''] rep = pre @ rep @ post"
  by (induction pre) auto

text \<open>
  C6: for a package name with a slash, \<open>deprecate\<close> calls the registry client with the URL
  resolved from the name in which the first slash, the one after the scope, is replaced by
  \<^verbatim>\<open>%2f\<close>; when the rest of the name has no slash, the encoded name has none at all.
\<close>

theorem deprecate_encodes_slash:
  "CHR ''/'' \<notin> set scope \<Longrightarrow>
     snd (deprecate env this (scope @ ''/'' @ rest) ver msg world)
       = world @ [RegistryCall (Deprecate
           (url_resolve env (npmRegistry env) (scope @ ''%2f'' @ rest))
           \<lparr> message = msg, DeprecateParams.version = ver,
             DeprecateParams.auth = NpmPublishClient.auth this \<rparr>)]
     \<and> (CHR ''/'' \<notin> set rest \<longrightarrow> CHR ''/'' \<notin> set (replace (scope @ ''/'' @ rest) ''/'' ''%2f''))"
  by (simp add: deprecate_def packageUrl_def replace_first_slash Let_def)

text \<open>
  \<^verbatim>\<open>deprecate("@scope/pkg", "1.0.0", "msg")\<close> on the example environment.
\<close>

theorem deprecate_encodes_slash_witness:
  "CHR ''/'' \<notin> set ''@scope''
   \<and> snd (deprecate exampleEnv exampleClient ''@scope/pkg'' ''1.0.0'' ''msg'' [])
       = [RegistryCall (Deprecate ''https://registry.npmjs.org/@scope%2fpkg''
           \<lparr> message = ''msg'', DeprecateParams.version = ''1.0.0'',
             DeprecateParams.auth = \<lparr> token = ''secret-token'' \<rparr> \<rparr>)]"
  using deprecate_encodes_slash [where scope = "''@scope''" and rest = "''pkg''" and env = exampleEnv
      and this = exampleClient and ver = "''1.0.0''" and msg = "''msg''" and world = "[]"]
  by (simp add: exampleEnv_fields exampleClient_fields)

text \<open>
  C7, as the code has it: a dry run of \<open>NpmPublishClient_publish\<close> never reaches the
  registry; it succeeds when \<^verbatim>\<open>README.md\<close> of the directory can be read, and fails with the
  error of that read otherwise.
\<close>

theorem publish_dry_run:
  "snd (NpmPublishClient_publish env this dir packageJson True world) = world
   \<and> (readFile env (joinPaths env dir ''README.md'') = Inr readmeText
        \<longrightarrow> fst (NpmPublishClient_publish env this dir packageJson True world) = Inr ())
   \<and> (readFile env (joinPaths env dir ''README.md'') = Inl e
        \<longrightarrow> fst (NpmPublishClient_publish env this dir packageJson True world) = Inl e)"
  by (simp add: NpmPublishClient_publish_def Let_def split: sum.splits)

text \<open>
  A dry run in the directory that has a readme, and one in a directory that has none.
\<close>

theorem publish_dry_run_witness:
  "NpmPublishClient_publish exampleEnv exampleClient ''output/types-registry'' [] True []
     = (Inr (), [])
   \<and> NpmPublishClient_publish exampleEnv exampleClient ''elsewhere'' [] True []
     = (Inl (Error ''ENOENT: no such file or directory, open elsewhere/README.md''), [])"
  using publish_dry_run [where env = exampleEnv and this = exampleClient
      and dir = "''output/types-registry''" and packageJson = "[]" and world = "[]"
      and readmeText = "''registry readme''"]
    publish_dry_run [where env = exampleEnv and this = exampleClient
      and dir = "''elsewhere''" and packageJson = "[]" and world = "[]"
      and e = "Error ''ENOENT: no such file or directory, open elsewhere/README.md''"]
  by (simp add: exampleEnv_fields prod_eq_iff)

text \<open>
  The claim as made (a dry run succeeds for every directory) fails for a directory without
  \<^verbatim>\<open>README.md\<close>.
\<close>

theorem publish_dry_run_counterexample:
  "fst (NpmPublishClient_publish exampleEnv exampleClient ''elsewhere'' [] True [])
     = Inl (Error ''ENOENT: no such file or directory, open elsewhere/README.md'')"
  by (simp add: NpmPublishClient_publish_def exampleEnv_fields)

section \<open>Properties of the registry workflow\<close>

text \<open>
  C8: when the list of added packages is empty, \<open>main\<close> ends successfully, its only effect
  is the log file with the heading and the line that no new packages were published, and
  nothing it did reaches the registry.
\<close>

theorem main_nothing_added:
  "readAdditions env = Inr [] \<Longrightarrow>
     main env dry world
       = (Inr (),
          world @ [WriteLog ''publish-registry.md''
            [''=== Publishing types-registry ==='',
             ''No new packages published, so no need to publish new registry.'']])
     \<and> filter reachesRegistry (snd (main env dry world)) = filter reachesRegistry world"
  by (simp add: main_def)

text \<open>
  The workflow on an environment with no added package.
\<close>

theorem main_nothing_added_witness:
  "readAdditions quietEnv = Inr []
   \<and> main quietEnv False []
       = (Inr (),
          [WriteLog ''publish-registry.md''
            [''=== Publishing types-registry ==='',
             ''No new packages published, so no need to publish new registry.'']])
   \<and> filter reachesRegistry (snd (main quietEnv False [])) = []"
proof -
  have quiet: "readAdditions quietEnv = Inr []"
    by (simp add: quietEnv_def)
  from main_nothing_added [OF quiet, of False "[]"] quiet show ?thesis
    by simp
qed

subsection \<open>Numbers and object keys\<close>

lemma digitValue_digit: "d < 10 \<Longrightarrow> digitValue (''0123456789'' ! d) = d"
proof -
  assume "d < 10"
  then have "d \<in> {0, 1, 2, 3, 4, 5, 6, 7, 8, 9}"
    by auto
  then show ?thesis
    by (auto simp add: digitValue_def)
qed

lemma digit_is_digit: "d < 10 \<Longrightarrow> ''0123456789'' ! d \<in> set ''0123456789''"
  by (rule nth_mem) simp

lemma decimalValue_snoc: "decimalValue (s @ [c]) = 10 * decimalValue s + digitValue c"
  by (simp add: decimalValue_def)

lemma decimalValue_decimal: "decimalValue (decimal n) = n"
proof (induction n rule: decimal.induct)
  case (1 n)
  show ?case
  proof (cases "n < 10")
    case True
    then show ?thesis
      by (simp add: decimal.simps [of n] decimalValue_def digitValue_digit)
  next
    case False
    with "1" have "decimalValue (decimal (n div 10)) = n div 10"
      by simp
    with False show ?thesis
      by (simp add: decimal.simps [of n] decimalValue_snoc digitValue_digit)
  qed
qed

lemma decimal_digits: "set (decimal n) \<subseteq> set ''0123456789''"
proof (induction n rule: decimal.induct)
  case (1 n)
  show ?case
  proof (cases "n < 10")
    case True
    with digit_is_digit [of n] show ?thesis
      by (simp add: decimal.simps [of n])
  next
    case False
    with "1" have "set (decimal (n div 10)) \<subseteq> set ''0123456789''"
      by simp
    with False digit_is_digit [of "n mod 10"] show ?thesis
      by (simp add: decimal.simps [of n])
  qed
qed

lemma decimal_no_leading_zero: "0 < n \<Longrightarrow> decimal n \<noteq> [] \<and> hd (decimal n) \<noteq> CHR ''0''"
proof (induction n rule: decimal.induct)
  case (1 n)
  show ?case
  proof (cases "n < 10")
    case True
    with "1.prems" have "n \<in> {1, 2, 3, 4, 5, 6, 7, 8, 9}"
      by auto
    then show ?thesis
      by (auto simp add: decimal.simps [of n])
  next
    case False
    then have "0 < n div 10"
      by simp
    with "1.IH" False have "decimal (n div 10) \<noteq> [] \<and> hd (decimal (n div 10)) \<noteq> CHR ''0''"
      by simp
    with False show ?thesis
      by (simp add: decimal.simps [of n])
  qed
qed

text \<open>
  The rounding of \<open>numberPlusOne\<close> at and above \<open>2\<^sup>5\<^sup>3\<close>, and the enumeration order of an
  index object whose package names include array indices, \<^verbatim>\<open>__proto__\<close> and a repeated name.
\<close>

lemma numberPlusOne_rounding_examples:
  "numberPlusOne 9007199254740991 = 9007199254740992"
  "numberPlusOne 9007199254740992 = 9007199254740992"
  "numberPlusOne 9007199254740994 = 9007199254740996"
  "numberPlusOne 18014398509481984 = 18014398509481984"
  by (simp_all add: numberPlusOne_def)

lemma registryEntries_enumeration_example:
  "registryEntries [\<lparr> typingsPackageName = ''b'' \<rparr>, \<lparr> typingsPackageName = ''10'' \<rparr>,
      \<lparr> typingsPackageName = ''2'' \<rparr>, \<lparr> typingsPackageName = ''a'' \<rparr>,
      \<lparr> typingsPackageName = ''__proto__'' \<rparr>, \<lparr> typingsPackageName = ''01'' \<rparr>,
      \<lparr> typingsPackageName = ''b'' \<rparr>, \<lparr> typingsPackageName = ''4294967295'' \<rparr>,
      \<lparr> typingsPackageName = ''4294967294'' \<rparr>] []
   = [(''2'', JNumber 1), (''10'', JNumber 1), (''4294967294'', JNumber 1), (''b'', JNumber 1),
      (''a'', JNumber 1), (''01'', JNumber 1), (''4294967295'', JNumber 1)]"
  by (simp add: setProperty_def isArrayIndex_def decimalValue_def digitValue_def)

lemma map_of_insertIndexKey:
  "key \<notin> fst ` set obj \<Longrightarrow> map_of (insertIndexKey key v obj) = (map_of obj)(key \<mapsto> v)"
  by (induction key v obj rule: insertIndexKey.induct) (auto simp add: fun_upd_twist)

lemma keys_insertIndexKey:
  "fst ` set (insertIndexKey key v obj) = insert key (fst ` set obj)"
  by (induction key v obj rule: insertIndexKey.induct) (simp_all add: insert_commute)

lemma map_of_setProperty:
  "map_of (setProperty key v obj)
     = (if key = ''__proto__'' then map_of obj else (map_of obj)(key \<mapsto> v))"
proof -
  have "key \<notin> fst ` set obj \<Longrightarrow> map_of (obj @ [(key, v)]) = (map_of obj)(key \<mapsto> v)"
    by (induction obj) (auto simp add: fun_upd_twist)
  then show ?thesis
    by (simp add: setProperty_def update_conv' map_of_insertIndexKey)
qed

lemma keys_setProperty:
  "fst ` set (setProperty key v obj)
     = (if key = ''__proto__'' then fst ` set obj else insert key (fst ` set obj))"
  by (auto simp add: setProperty_def dom_update keys_insertIndexKey)

lemma map_of_registryEntries:
  "map_of (registryEntries typings entries) name
     = (if name \<in> typingsPackageName ` set typings \<and> name \<noteq> ''__proto__'' then Some (JNumber 1)
        else map_of entries name)"
  by (induction typings arbitrary: entries) (auto simp add: map_of_setProperty)

lemma keys_registryEntries:
  "fst ` set (registryEntries typings entries)
     = (typingsPackageName ` set typings - {''__proto__''}) \<union> fst ` set entries"
  by (induction typings arbitrary: entries) (auto simp add: keys_setProperty)

lemma edgeEnv_fields:
  "settings_outputPath edgeEnv = ''output''"
  "path_join edgeEnv dir file = dir @ ''/'' @ file"
  "readAdditions edgeEnv = Inr [''jquery'']"
  "readTypings edgeEnv = Inr [\<lparr> typingsPackageName = ''__proto__'' \<rparr>]"
  "fetchVersionInfoFromNpm edgeEnv name isPrerelease = Inr 9007199254740992"
  "clearOutputPathLog edgeEnv path = []"
  "JSON_stringify edgeEnv [n] = ''['' @ [CHR 0x22] @ n @ [CHR 0x22] @ '']''"
  "npmClientCreate edgeEnv = None"
  "npmClientPublish edgeEnv dir packageJson dry = None"
  by (simp_all add: edgeEnv_def exampleEnv_def)

lemma main_changed:
  "readAdditions env = Inr added \<Longrightarrow> added \<noteq> [] \<Longrightarrow> readTypings env = Inr typings \<Longrightarrow>
   fetchVersionInfoFromNpm env packageName False = Inr lastPatch \<Longrightarrow>
   npmClientCreate env = None \<Longrightarrow>
   npmClientPublish env (outputPath env) (generatePackageJson env (numberPlusOne lastPatch)) dry = None \<Longrightarrow>
   main env dry world
     = (Inr (),
        world @
          [RegistryRead packageName False,
           ClearOutputPath (outputPath env),
           WriteJson (path_join env (outputPath env) ''package.json'')
             (JObject (generatePackageJson env (numberPlusOne lastPatch))),
           WriteJson (path_join env (outputPath env) ''index.json'')
             (JObject [(''entries'', JObject (registryEntries typings []))]),
           WriteJson (path_join env (outputPath env) ''README.md'') (JString readme),
           ClientPublish (outputPath env) (generatePackageJson env (numberPlusOne lastPatch)) dry,
           WriteLog ''publish-registry.md''
             ([''=== Publishing types-registry ==='',
               ''New packages have been added: '' @ JSON_stringify env added
                 @ '', so publishing a new registry'']
              @ clearOutputPathLog env (outputPath env))])"
  by (simp add: main_def generateAndPublishRegistry_def fetchLastPatchNumber_def generate_def
      publish_def generateRegistry_def Let_def)

subsection \<open>A changed registry\<close>

text \<open>
  C9, as the code has it: when the list of added packages is not empty, the reads succeed,
  the publish client is created and its publish call resolves, \<open>main\<close> writes the manifest
  and the index and hands the publish client the manifest of \<^verbatim>\<open>types-registry\<close>. For a last
  patch number below \<open>2\<^sup>5\<^sup>3\<close> the version of that manifest is \<^verbatim>\<open>0.1.\<close> followed by the
  decimal numeral of the last patch number plus one. The index maps every known package name
  other than \<^verbatim>\<open>__proto__\<close> to 1, and each of its keys is a known package name.
\<close>

theorem main_publishes_next_patch:
  assumes "readAdditions env = Inr added" and "added \<noteq> []"
    and "readTypings env = Inr typings"
    and "fetchVersionInfoFromNpm env packageName False = Inr lastPatch"
    and "lastPatch < 2 ^ 53"
    and "npmClientCreate env = None"
    and "npmClientPublish env (outputPath env) (generatePackageJson env (lastPatch + 1)) dry = None"
  shows "main env dry world
       = (Inr (),
          world @
            [RegistryRead packageName False,
             ClearOutputPath (outputPath env),
             WriteJson (path_join env (outputPath env) ''package.json'')
               (JObject (generatePackageJson env (lastPatch + 1))),
             WriteJson (path_join env (outputPath env) ''index.json'')
               (JObject [(''entries'', JObject (registryEntries typings []))]),
             WriteJson (path_join env (outputPath env) ''README.md'') (JString readme),
             ClientPublish (outputPath env) (generatePackageJson env (lastPatch + 1)) dry,
             WriteLog ''publish-registry.md''
               ([''=== Publishing types-registry ==='',
                 ''New packages have been added: '' @ JSON_stringify env added
                   @ '', so publishing a new registry'']
                @ clearOutputPathLog env (outputPath env))])
     \<and> map_of (generatePackageJson env (lastPatch + 1)) ''name'' = Some (JString ''types-registry'')
     \<and> map_of (generatePackageJson env (lastPatch + 1)) ''version''
         = Some (JString (''0.1.'' @ decimal (lastPatch + 1)))
     \<and> decimalValue (decimal (lastPatch + 1)) = lastPatch + 1
     \<and> set (decimal (lastPatch + 1)) \<subseteq> set ''0123456789''
     \<and> hd (decimal (lastPatch + 1)) \<noteq> CHR ''0''
     \<and> (\<forall>t \<in> set typings. typingsPackageName t \<noteq> ''__proto__'' \<longrightarrow>
           map_of (registryEntries typings []) (typingsPackageName t) = Some (JNumber 1))
     \<and> fst ` set (registryEntries typings []) \<subseteq> typingsPackageName ` set typings"
proof -
  have exact: "numberPlusOne lastPatch = lastPatch + 1"
    using assms(5) by (simp add: numberPlusOne_def)
  have "lastPatch + 1 \<le> 2 ^ 53"
    using assms(5) by simp
  also have "(2::nat) ^ 53 < 10 ^ 21"
    by simp
  finally have plain: "numberToString env (lastPatch + 1) = decimal (lastPatch + 1)"
    by (simp add: numberToString_def)
  have run: "main env dry world
       = (Inr (),
          world @
            [RegistryRead packageName False,
             ClearOutputPath (outputPath env),
             WriteJson (path_join env (outputPath env) ''package.json'')
               (JObject (generatePackageJson env (lastPatch + 1))),
             WriteJson (path_join env (outputPath env) ''index.json'')
               (JObject [(''entries'', JObject (registryEntries typings []))]),
             WriteJson (path_join env (outputPath env) ''README.md'') (JString readme),
             ClientPublish (outputPath env) (generatePackageJson env (lastPatch + 1)) dry,
             WriteLog ''publish-registry.md''
               ([''=== Publishing types-registry ==='',
                 ''New packages have been added: '' @ JSON_stringify env added
                   @ '', so publishing a new registry'']
                @ clearOutputPathLog env (outputPath env))])"
    using main_changed [of env added typings lastPatch dry world] assms exact
    by simp
  have name: "map_of (generatePackageJson env (lastPatch + 1)) ''name''
      = Some (JString ''types-registry'')"
    by (simp add: generatePackageJson_def packageName_def)
  have ver: "map_of (generatePackageJson env (lastPatch + 1)) ''version''
      = Some (JString (''0.1.'' @ decimal (lastPatch + 1)))"
    using plain by (simp add: generatePackageJson_def)
  have entries: "\<forall>t \<in> set typings. typingsPackageName t \<noteq> ''__proto__'' \<longrightarrow>
           map_of (registryEntries typings []) (typingsPackageName t) = Some (JNumber 1)"
    by (simp add: map_of_registryEntries)
  have keys: "fst ` set (registryEntries typings []) \<subseteq> typingsPackageName ` set typings"
    by (auto simp add: keys_registryEntries)
  from run name ver entries keys decimalValue_decimal [of "lastPatch + 1"]
    decimal_digits [of "lastPatch + 1"] decimal_no_leading_zero [of "lastPatch + 1"]
  show ?thesis
    by simp
qed

text \<open>
  Last patch 41, one added package, two known packages: version \<^verbatim>\<open>0.1.42\<close>.
\<close>

theorem main_publishes_next_patch_witness:
  "main exampleEnv False []
     = (Inr (),
        [RegistryRead ''types-registry'' False,
         ClearOutputPath ''output/types-registry'',
         WriteJson ''output/types-registry/package.json'' (JObject (generatePackageJson exampleEnv 42)),
         WriteJson ''output/types-registry/index.json''
           (JObject [(''entries'', JObject [(''jquery'', JNumber 1), (''node'', JNumber 1)])]),
         WriteJson ''output/types-registry/README.md'' (JString readme),
         ClientPublish ''output/types-registry'' (generatePackageJson exampleEnv 42) False,
         WriteLog ''publish-registry.md''
           [''=== Publishing types-registry ==='',
            ''New packages have been added: ['' @ [CHR 0x22] @ ''jquery'' @ [CHR 0x22]
              @ ''], so publishing a new registry'']])
   \<and> map_of (generatePackageJson exampleEnv 42) ''version'' = Some (JString ''0.1.42'')
   \<and> decimalValue ''42'' = 42
   \<and> map_of (registryEntries [\<lparr> typingsPackageName = ''jquery'' \<rparr>,
                                 \<lparr> typingsPackageName = ''node'' \<rparr>] []) ''node''
       = Some (JNumber 1)"
proof -
  have forty_two: "decimal 42 = ''42''"
    by (simp add: decimal.simps)
  have out: "outputPath exampleEnv = ''output/types-registry''"
    by (simp add: outputPath_def exampleEnv_fields packageName_def)
  have "main exampleEnv False []
       = (Inr (),
          [] @
            [RegistryRead packageName False,
             ClearOutputPath (outputPath exampleEnv),
             WriteJson (path_join exampleEnv (outputPath exampleEnv) ''package.json'')
               (JObject (generatePackageJson exampleEnv (41 + 1))),
             WriteJson (path_join exampleEnv (outputPath exampleEnv) ''index.json'')
               (JObject [(''entries'', JObject (registryEntries
                  [\<lparr> typingsPackageName = ''jquery'' \<rparr>, \<lparr> typingsPackageName = ''node'' \<rparr>] []))]),
             WriteJson (path_join exampleEnv (outputPath exampleEnv) ''README.md'') (JString readme),
             ClientPublish (outputPath exampleEnv) (generatePackageJson exampleEnv (41 + 1)) False,
             WriteLog ''publish-registry.md''
               ([''=== Publishing types-registry ==='',
                 ''New packages have been added: '' @ JSON_stringify exampleEnv [''jquery'']
                   @ '', so publishing a new registry'']
                @ clearOutputPathLog exampleEnv (outputPath exampleEnv))])
     \<and> map_of (generatePackageJson exampleEnv (41 + 1)) ''name'' = Some (JString ''types-registry'')
     \<and> map_of (generatePackageJson exampleEnv (41 + 1)) ''version''
         = Some (JString (''0.1.'' @ decimal (41 + 1)))
     \<and> decimalValue (decimal (41 + 1)) = 41 + 1
     \<and> set (decimal (41 + 1)) \<subseteq> set ''0123456789''
     \<and> hd (decimal (41 + 1)) \<noteq> CHR ''0''
     \<and> (\<forall>t \<in> set [\<lparr> typingsPackageName = ''jquery'' \<rparr>, \<lparr> typingsPackageName = ''node'' \<rparr>].
           typingsPackageName t \<noteq> ''__proto__'' \<longrightarrow>
           map_of (registryEntries [\<lparr> typingsPackageName = ''jquery'' \<rparr>,
                                    \<lparr> typingsPackageName = ''node'' \<rparr>] [])
             (typingsPackageName t) = Some (JNumber 1))
     \<and> fst ` set (registryEntries [\<lparr> typingsPackageName = ''jquery'' \<rparr>,
                                    \<lparr> typingsPackageName = ''node'' \<rparr>] [])
         \<subseteq> typingsPackageName ` set [\<lparr> typingsPackageName = ''jquery'' \<rparr>,
                                       \<lparr> typingsPackageName = ''node'' \<rparr>]"
  proof (rule main_publishes_next_patch [where added = "[''jquery'']"])
    show "readAdditions exampleEnv = Inr [''jquery'']"
      by (simp add: exampleEnv_fields)
    show "[''jquery''] \<noteq> []"
      by simp
    show "readTypings exampleEnv
        = Inr [\<lparr> typingsPackageName = ''jquery'' \<rparr>, \<lparr> typingsPackageName = ''node'' \<rparr>]"
      by (simp add: exampleEnv_fields)
    show "fetchVersionInfoFromNpm exampleEnv packageName False = Inr 41"
      by (simp add: exampleEnv_fields)
    show "(41::nat) < 2 ^ 53"
      by simp
    show "npmClientCreate exampleEnv = None"
      by (simp add: exampleEnv_fields)
    show "npmClientPublish exampleEnv (outputPath exampleEnv)
        (generatePackageJson exampleEnv (41 + 1)) False = None"
      by (simp add: exampleEnv_fields)
  qed
  then show ?thesis
    by (simp add: out forty_two packageName_def exampleEnv_fields setProperty_def
        isArrayIndex_def)
qed

text \<open>
  The claim as made fails on \<open>edgeEnv\<close>: with the last patch number \<open>2\<^sup>5\<^sup>3\<close> the sum is
  rounded back and the published version repeats the last one, and the package called
  \<^verbatim>\<open>__proto__\<close> is not a key of the index.
\<close>

theorem main_publishes_next_patch_counterexample:
  "main edgeEnv False []
     = (Inr (),
        [RegistryRead ''types-registry'' False,
         ClearOutputPath ''output/types-registry'',
         WriteJson ''output/types-registry/package.json''
           (JObject (generatePackageJson edgeEnv 9007199254740992)),
         WriteJson ''output/types-registry/index.json'' (JObject [(''entries'', JObject [])]),
         WriteJson ''output/types-registry/README.md'' (JString readme),
         ClientPublish ''output/types-registry'' (generatePackageJson edgeEnv 9007199254740992) False,
         WriteLog ''publish-registry.md''
           [''=== Publishing types-registry ==='',
            ''New packages have been added: ['' @ [CHR 0x22] @ ''jquery'' @ [CHR 0x22]
              @ ''], so publishing a new registry'']])
   \<and> map_of (generatePackageJson edgeEnv 9007199254740992) ''version''
       = Some (JString ''0.1.9007199254740992'')"
proof -
  have out: "outputPath edgeEnv = ''output/types-registry''"
    by (simp add: outputPath_def edgeEnv_fields packageName_def)
  have rounded: "numberPlusOne 9007199254740992 = 9007199254740992"
    by (simp add: numberPlusOne_def)
  have digits: "decimal 9007199254740992 = ''9007199254740992''"
    by (simp add: decimal.simps)
  have ver: "map_of (generatePackageJson edgeEnv 9007199254740992) ''version''
       = Some (JString ''0.1.9007199254740992'')"
    by (simp add: generatePackageJson_def numberToString_def digits)
  have run: "main edgeEnv False []
     = (Inr (),
        [RegistryRead ''types-registry'' False,
         ClearOutputPath ''output/types-registry'',
         WriteJson ''output/types-registry/package.json''
           (JObject (generatePackageJson edgeEnv 9007199254740992)),
         WriteJson ''output/types-registry/index.json'' (JObject [(''entries'', JObject [])]),
         WriteJson ''output/types-registry/README.md'' (JString readme),
         ClientPublish ''output/types-registry'' (generatePackageJson edgeEnv 9007199254740992) False,
         WriteLog ''publish-registry.md''
           [''=== Publishing types-registry ==='',
            ''New packages have been added: ['' @ [CHR 0x22] @ ''jquery'' @ [CHR 0x22]
              @ ''], so publishing a new registry'']])"
    using main_changed [of edgeEnv "[''jquery'']" "[\<lparr> typingsPackageName = ''__proto__'' \<rparr>]"
        9007199254740992 False "[]"]
    by (simp add: edgeEnv_fields out rounded packageName_def setProperty_def)
  from run ver show ?thesis
    by simp
qed

end
